theory Spec2Isabelle
  imports Main "HOL-Library.Sublist"
begin

section \<open>The data model of core.py\<close>

text \<open>
  The enum \<open>Roles\<close> (core.py, lines 6-13) and the five concrete classes. A Python object
  keeps the class it was constructed with whatever its \<open>role\<close> field says, and only the
  class \<open>Receiver\<close> defines \<open>receive_message\<close>, so the class is a field of the model.
\<close>

datatype Roles = ENCRYPTER | SENDER | RECEIVER | WORD_GENERATOR

datatype pyclass = Node_cls | Encrypter_cls | Sender_cls | Receiver_cls | WordGenerator_cls

text \<open>
  Nodes are objects with identity: two nodes with equal fields are still two nodes, and
  peer lists hold references. A reference is an address, the store maps every address to
  the object living there.
\<close>

type_synonym ref = nat

record node =
  node_id :: int
  peers :: "ref list"
  role :: Roles
  cls :: pyclass

type_synonym heap = "ref \<Rightarrow> node"

text \<open>
  What a call can raise: \<open>ValueError\<close> from \<open>set_role\<close>, \<open>AttributeError\<close> when a method
  is looked up on an object whose class does not define it, and \<open>RecursionError\<close> when the
  nesting of calls passes the interpreter's limit.
\<close>

datatype error = ValueError | AttributeError | RecursionError

datatype status = Returned | Raised error

text \<open>
  The state a call runs in: the store, the lines printed so far, and a log with one entry
  for every \<open>send_message\<close> and \<open>receive_message\<close> invocation, in the order the
  invocations start, each with the object invoked and the \<open>sender\<close> argument it got.
\<close>

datatype event = Invoke_send ref ref | Invoke_receive ref ref

record state =
  heap :: heap
  stdout :: "string list"
  calls :: "event list"

section \<open>Constructors\<close>

text \<open>\<open>Node.__init__\<close> (lines 40-49) and the four subclasses' constructors.\<close>

definition Node_init :: "int \<Rightarrow> Roles \<Rightarrow> node" where
  "Node_init identifier r = \<lparr>node_id = identifier, peers = [], role = r, cls = Node_cls\<rparr>"

definition Encrypter_init :: "int \<Rightarrow> node" where
  "Encrypter_init identifier = (Node_init identifier ENCRYPTER)\<lparr>cls := Encrypter_cls\<rparr>"

definition Sender_init :: "int \<Rightarrow> node" where
  "Sender_init identifier = (Node_init identifier SENDER)\<lparr>cls := Sender_cls\<rparr>"

definition Receiver_init :: "int \<Rightarrow> node" where
  "Receiver_init identifier = (Node_init identifier RECEIVER)\<lparr>cls := Receiver_cls\<rparr>"

definition WordGenerator_init :: "int \<Rightarrow> node" where
  "WordGenerator_init identifier =
     (Node_init identifier WORD_GENERATOR)\<lparr>cls := WordGenerator_cls\<rparr>"

section \<open>connect\<close>

text \<open>
  \<open>Node.connect\<close> (lines 51-59). \<open>node not in self.peers\<close> compares by identity, since no
  class defines \<open>__eq__\<close>; on references that is equality of addresses. The method calls
  itself on the other node, at most three frames deep.
\<close>

function connect :: "heap \<Rightarrow> ref \<Rightarrow> ref \<Rightarrow> heap" where
  "connect h self node =
     (if node \<notin> set (peers (h self))
      then connect (h(self := (h self)\<lparr>peers := peers (h self) @ [node]\<rparr>)) node self
      else h)"
  by pat_completeness auto
termination
  by (relation "measure (\<lambda>(h, self, node).
        (if node \<in> set (peers (h self)) then 0 else 1) +
        (if self \<in> set (peers (h node)) then 0 else (1::nat)))") auto

declare connect.simps [simp del]

section \<open>send_message and receive_message\<close>

text \<open>Python's \<open>str\<close> of an integer, as the f-string of \<open>receive_message\<close> formats an id.\<close>

fun digits :: "nat \<Rightarrow> string" where
  "digits n =
     (if n < 10 then [char_of (48 + n)]
      else digits (n div 10) @ [char_of (48 + n mod 10)])"

declare digits.simps [simp del]

definition str_int :: "int \<Rightarrow> string" where
  "str_int i = (if i < 0 then CHR ''-'' # digits (nat (- i)) else digits (nat i))"

text \<open>
  \<open>Receiver.receive_message\<close> (lines 141-148): one \<open>print\<close>. On an object of any other
  class the attribute lookup \<open>peer.receive_message\<close> raises before anything is called.
\<close>

definition receive_message :: "state \<Rightarrow> string \<Rightarrow> ref \<Rightarrow> ref \<Rightarrow> status \<times> state" where
  "receive_message st message self sender =
     (if cls (heap st self) = Receiver_cls
      then (Returned,
            st\<lparr>stdout := stdout st @
                  [''Receiver id='' @ str_int (node_id (heap st self)) @
                   '' received a message from sender id='' @
                   str_int (node_id (heap st sender)) @ '': '' @ message],
               calls := calls st @ [Invoke_receive self sender]\<rparr>)
      else (Raised AttributeError, st))"

text \<open>
  \<open>Node.send_message\<close> (lines 61-75). The first argument bounds how deep
  \<open>send_message\<close> calls may nest: with none left the call raises \<open>RecursionError\<close>, as
  the interpreter does at its recursion limit. \<open>send_loop\<close> is the \<open>for\<close> loop over the
  peers still to visit; an exception in the body ends the loop and the call. The loop
  visits the peer list as it is when the call starts: no statement of \<open>send_message\<close> or
  \<open>receive_message\<close> assigns to a field or appends to a list. The state is still threaded
  through every call and returned, so that this is a theorem and not a convention.
\<close>

fun send_message :: "nat \<Rightarrow> state \<Rightarrow> string \<Rightarrow> ref \<Rightarrow> ref \<Rightarrow> status \<times> state"
  and send_loop :: "nat \<Rightarrow> state \<Rightarrow> string \<Rightarrow> ref \<Rightarrow> ref \<Rightarrow> ref list \<Rightarrow> status \<times> state"
where
  "send_message 0 st message self sender = (Raised RecursionError, st)"
| "send_message (Suc n) st message self sender =
     send_loop n (st\<lparr>calls := calls st @ [Invoke_send self sender]\<rparr>) message self sender
       (peers (heap st self))"
| "send_loop n st message self sender [] = (Returned, st)"
| "send_loop n st message self sender (peer # ps) =
     (case (if role (heap st peer) = RECEIVER then receive_message st message peer sender
            else if peer \<noteq> self then send_message n st message peer self
            else (Returned, st)) of
        (Returned, st') \<Rightarrow> send_loop n st' message self sender ps
      | (Raised e, st') \<Rightarrow> (Raised e, st'))"

section \<open>set_role and the remaining methods\<close>

text \<open>\<open>Node.set_role\<close> (lines 77-87).\<close>

definition set_role :: "state \<Rightarrow> ref \<Rightarrow> Roles \<Rightarrow> status \<times> state" where
  "set_role st self r =
     (if role (heap st self) = WORD_GENERATOR then (Raised ValueError, st)
      else (Returned, st\<lparr>heap := (heap st)(self := (heap st self)\<lparr>role := r\<rparr>)\<rparr>))"

text \<open>\<open>Node.__str__\<close> (lines 89-93), with the enum's values (lines 10-13).\<close>

fun Roles_value :: "Roles \<Rightarrow> string" where
  "Roles_value ENCRYPTER = ''encrypter''"
| "Roles_value SENDER = ''sender''"
| "Roles_value RECEIVER = ''receiver''"
| "Roles_value WORD_GENERATOR = ''word_generator''"

definition str_node :: "node \<Rightarrow> string" where
  "str_node x = ''Node id='' @ str_int (node_id x) @ '', Role='' @ Roles_value (role x)"

text \<open>
  The three stubs (\<open>encrypt_message\<close>, \<open>initiate_message\<close>, \<open>generate_word\<close>): the body
  is \<open>pass\<close>, and the method exists on one class only.
\<close>

definition stub :: "pyclass \<Rightarrow> state \<Rightarrow> ref \<Rightarrow> status \<times> state" where
  "stub c st self = (if cls (heap st self) = c then (Returned, st) else (Raised AttributeError, st))"

definition encrypt_message :: "state \<Rightarrow> ref \<Rightarrow> string \<Rightarrow> status \<times> state" where
  "encrypt_message st self message = stub Encrypter_cls st self"

definition initiate_message :: "state \<Rightarrow> ref \<Rightarrow> string \<Rightarrow> status \<times> state" where
  "initiate_message st self message = stub Sender_cls st self"

definition generate_word :: "state \<Rightarrow> ref \<Rightarrow> status \<times> state" where
  "generate_word st self = stub WordGenerator_cls st self"

section \<open>Programs over the interface\<close>

text \<open>
  A client builds its objects with the five constructors and then calls methods on them.
  \<open>initial objs\<close> is the state right after construction, \<open>objs x\<close> being the constructor
  call that made the object at address \<open>x\<close>: every peer list is empty and nothing has been
  printed. A \<open>method_call\<close> is one call from the client; \<open>run\<close> makes a sequence of them,
  going on after a call that raised with the state that call left.
\<close>

datatype ctor =
    New_Node int Roles
  | New_Encrypter int
  | New_Sender int
  | New_Receiver int
  | New_WordGenerator int

fun construct :: "ctor \<Rightarrow> node" where
  "construct (New_Node identifier r) = Node_init identifier r"
| "construct (New_Encrypter identifier) = Encrypter_init identifier"
| "construct (New_Sender identifier) = Sender_init identifier"
| "construct (New_Receiver identifier) = Receiver_init identifier"
| "construct (New_WordGenerator identifier) = WordGenerator_init identifier"

definition initial :: "(ref \<Rightarrow> ctor) \<Rightarrow> state" where
  "initial objs = \<lparr>heap = (\<lambda>x. construct (objs x)), stdout = [], calls = []\<rparr>"

datatype method_call =
    Connect ref ref
  | Set_role ref Roles
  | Send_message nat string ref ref
  | Receive_message string ref ref
  | Encrypt_message ref string
  | Initiate_message ref string
  | Generate_word ref
  | Str ref

fun exec :: "method_call \<Rightarrow> state \<Rightarrow> state" where
  "exec (Connect a b) st = st\<lparr>heap := connect (heap st) a b\<rparr>"
| "exec (Set_role a r) st = snd (set_role st a r)"
| "exec (Send_message n message a sender) st = snd (send_message n st message a sender)"
| "exec (Receive_message message a sender) st = snd (receive_message st message a sender)"
| "exec (Encrypt_message a message) st = snd (encrypt_message st a message)"
| "exec (Initiate_message a message) st = snd (initiate_message st a message)"
| "exec (Generate_word a) st = snd (generate_word st a)"
| "exec (Str a) st = st"

definition run :: "method_call list \<Rightarrow> state \<Rightarrow> state" where
  "run cs st = fold exec cs st"

text \<open>
  The two properties of peer lists that the spec's data model states: the relation is
  symmetric, and no list holds a peer twice.
\<close>

definition symmetric :: "heap \<Rightarrow> bool" where
  "symmetric h = (\<forall>a b. b \<in> set (peers (h a)) \<longrightarrow> a \<in> set (peers (h b)))"

definition no_duplicates :: "heap \<Rightarrow> bool" where
  "no_duplicates h = (\<forall>a. distinct (peers (h a)))"

section \<open>The scenarios of the spec\<close>

text \<open>
  Three objects at the addresses 0, 1 and 2 (every further address holds an object like
  the third, which is never connected to anything).
\<close>

definition three :: "ctor \<Rightarrow> ctor \<Rightarrow> ctor \<Rightarrow> ref \<Rightarrow> ctor" where
  "three x y z = (\<lambda>a. if a = 0 then x else if a = 1 then y else z)"

text \<open>
  The chain: A and B are senders, C is a receiver, connected by \<open>A.connect(B)\<close> and then
  \<open>B.connect(C)\<close>.
\<close>

definition chain :: "int \<Rightarrow> int \<Rightarrow> int \<Rightarrow> state" where
  "chain ia ib ic =
     run [Connect 0 1, Connect 1 2]
       (initial (three (New_Sender ia) (New_Sender ib) (New_Receiver ic)))"

text \<open>
  The star: the hub H is a sender, R1 and R2 are receivers; \<open>star\<close> connects R1 first,
  \<open>star'\<close> connects R2 first.
\<close>

definition star :: "int \<Rightarrow> int \<Rightarrow> int \<Rightarrow> state" where
  "star ih i1 i2 =
     run [Connect 0 1, Connect 0 2]
       (initial (three (New_Sender ih) (New_Receiver i1) (New_Receiver i2)))"

definition star' :: "int \<Rightarrow> int \<Rightarrow> int \<Rightarrow> state" where
  "star' ih i1 i2 =
     run [Connect 0 2, Connect 0 1]
       (initial (three (New_Sender ih) (New_Receiver i1) (New_Receiver i2)))"

text \<open>
  The same star with receivers that have the role but not the class: in \<open>star_nodes\<close>
  R1 and R2 are made by \<open>Node(i, Roles.RECEIVER)\<close>, in \<open>star_roles\<close> they are senders
  given the role by \<open>set_role(Roles.RECEIVER)\<close>.
\<close>

definition star_nodes :: "int \<Rightarrow> int \<Rightarrow> int \<Rightarrow> state" where
  "star_nodes ih i1 i2 =
     run [Connect 0 1, Connect 0 2]
       (initial (three (New_Sender ih) (New_Node i1 RECEIVER) (New_Node i2 RECEIVER)))"

definition star_roles :: "int \<Rightarrow> int \<Rightarrow> int \<Rightarrow> state" where
  "star_roles ih i1 i2 =
     run [Set_role 1 RECEIVER, Set_role 2 RECEIVER, Connect 0 1, Connect 0 2]
       (initial (three (New_Sender ih) (New_Sender i1) (New_Sender i2)))"

text \<open>The triangle: three senders, connected A-B, B-C, C-A.\<close>

definition triangle :: "int \<Rightarrow> int \<Rightarrow> int \<Rightarrow> state" where
  "triangle ia ib ic =
     run [Connect 0 1, Connect 1 2, Connect 2 0]
       (initial (three (New_Sender ia) (New_Sender ib) (New_Sender ic)))"

text \<open>
  A sender B whose only peer is the receiver C, and a third sender A that is connected to
  nobody.
\<close>

definition pair :: "int \<Rightarrow> int \<Rightarrow> int \<Rightarrow> state" where
  "pair ia ib ic =
     run [Connect 1 2]
       (initial (three (New_Sender ia) (New_Sender ib) (New_Receiver ic)))"

text \<open>
  What the log may hold after the entry of the call that started a traversal: a
  \<open>send_message\<close> on a node that is not a receiver, a \<open>receive_message\<close> on one that is.
\<close>

fun forwarded_ok :: "heap \<Rightarrow> event \<Rightarrow> bool" where
  "forwarded_ok h (Invoke_send p s) = (role (h p) \<noteq> RECEIVER)"
| "forwarded_ok h (Invoke_receive p s) = (role (h p) = RECEIVER)"

text \<open>A log \<open>ys\<close> continues the log \<open>xs\<close> with such entries only.\<close>

definition extends_ok :: "heap \<Rightarrow> event list \<Rightarrow> event list \<Rightarrow> bool" where
  "extends_ok h xs ys = (\<exists>evs. ys = xs @ evs \<and> list_all (forwarded_ok h) evs)"

section \<open>Facts about connect\<close>

lemma connect_unfold:
  "connect h a b =
    (if b \<in> set (peers (h a)) then h
     else let h1 = h(a := (h a)\<lparr>peers := peers (h a) @ [b]\<rparr>) in
       if a \<in> set (peers (h1 b)) then h1
       else h1(b := (h1 b)\<lparr>peers := peers (h1 b) @ [a]\<rparr>))"
proof (cases "b \<in> set (peers (h a))")
  case True
  then show ?thesis by (simp add: connect.simps [of h a b])
next
  case False
  define h1 where "h1 = h(a := (h a)\<lparr>peers := peers (h a) @ [b]\<rparr>)"
  have first: "connect h a b = connect h1 b a"
    using False by (simp add: connect.simps [of h a b] h1_def)
  show ?thesis
  proof (cases "a \<in> set (peers (h1 b))")
    case True
    then have "connect h1 b a = h1" by (simp add: connect.simps [of h1 b a])
    with first False True show ?thesis by (simp add: h1_def Let_def)
  next
    case nb: False
    define h2 where "h2 = h1(b := (h1 b)\<lparr>peers := peers (h1 b) @ [a]\<rparr>)"
    have ab: "a \<noteq> b" using nb by (auto simp: h1_def)
    have second: "connect h1 b a = connect h2 a b"
      using nb by (simp add: connect.simps [of h1 b a] h2_def)
    have "b \<in> set (peers (h2 a))" using ab by (simp add: h2_def h1_def)
    then have "connect h2 a b = h2" by (simp add: connect.simps [of h2 a b])
    with first second False nb show ?thesis by (simp add: h1_def h2_def Let_def)
  qed
qed

lemma connect_noop: "b \<in> set (peers (h a)) \<Longrightarrow> connect h a b = h"
  by (simp add: connect_unfold)

lemma connect_fields:
  "node_id (connect h a b x) = node_id (h x)"
  "role (connect h a b x) = role (h x)"
  "cls (connect h a b x) = cls (h x)"
  by (simp_all add: connect_unfold Let_def)

lemma connect_keeps: "y \<in> set (peers (h x)) \<Longrightarrow> y \<in> set (peers (connect h a b x))"
  by (auto simp add: connect_unfold Let_def)

lemma connect_adds: "b \<in> set (peers (connect h a b a))"
  by (simp add: connect_unfold Let_def)

lemma connect_adds_back:
  "(b \<in> set (peers (h a)) \<Longrightarrow> a \<in> set (peers (h b))) \<Longrightarrow> a \<in> set (peers (connect h a b b))"
  by (auto simp add: connect_unfold Let_def)

lemma connect_new:
  "y \<in> set (peers (connect h a b x)) \<Longrightarrow>
     y \<in> set (peers (h x)) \<or> (x = a \<and> y = b) \<or> (x = b \<and> y = a)"
  by (auto simp add: connect_unfold Let_def split: if_splits)

lemma connect_symmetric: "symmetric h \<Longrightarrow> symmetric (connect h a b)"
  unfolding symmetric_def
proof (intro allI impI)
  fix x y
  assume sym: "\<forall>a b. b \<in> set (peers (h a)) \<longrightarrow> a \<in> set (peers (h b))"
    and y: "y \<in> set (peers (connect h a b x))"
  from connect_new [OF y] consider
    "y \<in> set (peers (h x))" | "x = a \<and> y = b" | "x = b \<and> y = a" by blast
  then show "x \<in> set (peers (connect h a b y))"
  proof cases
    case 1
    with sym have "x \<in> set (peers (h y))" by blast
    then show ?thesis by (rule connect_keeps)
  next
    case 2
    then show ?thesis using sym connect_adds_back [of b h a] by blast
  next
    case 3
    then show ?thesis by (simp add: connect_adds)
  qed
qed

lemma connect_no_duplicates: "no_duplicates h \<Longrightarrow> no_duplicates (connect h a b)"
  by (auto simp add: no_duplicates_def connect_unfold Let_def)

lemma count_one: "distinct xs \<Longrightarrow> x \<in> set xs \<Longrightarrow> count_list xs x = 1"
  by (induction xs) auto

section \<open>Facts about send_message\<close>

lemma send_heap:
  "heap (snd (send_message n st m self s)) = heap st"
  "heap (snd (send_loop n st m self s ps)) = heap st"
proof (induction n st m self s and n st m self s ps rule: send_message_send_loop.induct)
  case (4 n st message self sender peer ps)
  then show ?case
    by (auto simp: receive_message_def split: prod.splits status.splits if_splits)
qed simp_all

lemma receive_heap: "heap (snd (receive_message st m r s)) = heap st"
  by (simp add: receive_message_def)

lemma send_calls:
  "prefix (calls st) (calls (snd (send_message n st m self s)))"
  "prefix (calls st) (calls (snd (send_loop n st m self s ps)))"
proof (induction n st m self s and n st m self s ps rule: send_message_send_loop.induct)
  case (2 n st message self sender)
  then show ?case by (auto dest: append_prefixD)
next
  case (4 n st message self sender peer ps)
  then show ?case
    by (auto simp: receive_message_def split: prod.splits status.splits if_splits
        dest: append_prefixD intro: prefix_order.trans)
qed simp_all

lemma send_stdout:
  "prefix (stdout st) (stdout (snd (send_message n st m self s)))"
  "prefix (stdout st) (stdout (snd (send_loop n st m self s ps)))"
proof (induction n st m self s and n st m self s ps rule: send_message_send_loop.induct)
  case (4 n st message self sender peer ps)
  then show ?case
    by (auto simp: receive_message_def split: prod.splits status.splits if_splits
        dest: append_prefixD intro: prefix_order.trans)
qed simp_all

lemma send_loop_append:
  "send_loop n st m self s (xs @ ys) =
     (case send_loop n st m self s xs of
        (Returned, st') \<Rightarrow> send_loop n st' m self s ys
      | (Raised e, st') \<Rightarrow> (Raised e, st'))"
  by (induction xs arbitrary: st) (auto split: prod.splits status.splits)

section \<open>What every method call preserves\<close>

lemma initial_invariants: "symmetric (heap (initial objs))" "no_duplicates (heap (initial objs))"
proof -
  have "peers (construct c) = []" for c
    by (cases c)
      (simp_all add: Node_init_def Encrypter_init_def Sender_init_def Receiver_init_def
        WordGenerator_init_def)
  then show "symmetric (heap (initial objs))" "no_duplicates (heap (initial objs))"
    by (simp_all add: initial_def symmetric_def no_duplicates_def)
qed

lemma set_role_peers: "peers (heap (snd (set_role st a r)) x) = peers (heap st x)"
  by (simp add: set_role_def)

lemma stub_state: "snd (stub c st a) = st"
  by (simp add: stub_def)

lemma exec_peers_cases:
  "(\<exists>a b. c = Connect a b \<and> heap (exec c st) = connect (heap st) a b) \<or>
   (\<forall>x. peers (heap (exec c st) x) = peers (heap st x))"
  by (cases c)
    (simp_all add: set_role_peers send_heap receive_heap encrypt_message_def
      initiate_message_def generate_word_def stub_state)

lemma exec_invariants:
  assumes "symmetric (heap st)" "no_duplicates (heap st)"
  shows "symmetric (heap (exec c st))" "no_duplicates (heap (exec c st))"
proof -
  from exec_peers_cases [of c st] consider
    a b where "heap (exec c st) = connect (heap st) a b"
    | "\<forall>x. peers (heap (exec c st) x) = peers (heap st x)" by blast
  then have "symmetric (heap (exec c st)) \<and> no_duplicates (heap (exec c st))"
  proof cases
    case 1
    with assms show ?thesis by (simp add: connect_symmetric connect_no_duplicates)
  next
    case 2
    with assms show ?thesis by (simp add: symmetric_def no_duplicates_def)
  qed
  then show "symmetric (heap (exec c st))" "no_duplicates (heap (exec c st))" by simp_all
qed

lemma run_invariants:
  "symmetric (heap st) \<Longrightarrow> no_duplicates (heap st) \<Longrightarrow>
     symmetric (heap (run cs st)) \<and> no_duplicates (heap (run cs st))"
  unfolding run_def by (induction cs arbitrary: st) (simp_all add: exec_invariants)

lemma reachable_invariants:
  "symmetric (heap (run cs (initial objs)))" "no_duplicates (heap (run cs (initial objs)))"
  using run_invariants [OF initial_invariants, of cs objs] by simp_all

lemma exec_word_generator:
  "role (heap st x) = WORD_GENERATOR \<Longrightarrow> role (heap (exec c st) x) = WORD_GENERATOR"
  by (cases c)
    (auto simp add: set_role_def connect_fields send_heap receive_heap encrypt_message_def
      initiate_message_def generate_word_def stub_state)

lemma run_word_generator:
  "role (heap st x) = WORD_GENERATOR \<Longrightarrow> role (heap (run cs st) x) = WORD_GENERATOR"
  unfolding run_def by (induction cs arbitrary: st) (simp_all add: exec_word_generator)

section \<open>The stores of the scenarios\<close>

lemmas scenario_defs =
  run_def initial_def connect_unfold Let_def three_def
  Node_init_def Sender_init_def Receiver_init_def

lemma chain_heap:
  "heap (chain ia ib ic) =
     (\<lambda>a. if a = 0 then (Sender_init ia)\<lparr>peers := [1]\<rparr>
          else if a = 1 then (Sender_init ib)\<lparr>peers := [0, 2]\<rparr>
          else if a = 2 then (Receiver_init ic)\<lparr>peers := [1]\<rparr>
          else Receiver_init ic)"
  by (rule ext) (simp add: chain_def scenario_defs)

lemma chain_out: "stdout (chain ia ib ic) = []" "calls (chain ia ib ic) = []"
  by (simp_all add: chain_def run_def initial_def)

lemma star_heap:
  "heap (star ih i1 i2) =
     (\<lambda>a. if a = 0 then (Sender_init ih)\<lparr>peers := [1, 2]\<rparr>
          else if a = 1 then (Receiver_init i1)\<lparr>peers := [0]\<rparr>
          else if a = 2 then (Receiver_init i2)\<lparr>peers := [0]\<rparr>
          else Receiver_init i2)"
  by (rule ext) (simp add: star_def scenario_defs)

lemma star'_heap:
  "heap (star' ih i1 i2) =
     (\<lambda>a. if a = 0 then (Sender_init ih)\<lparr>peers := [2, 1]\<rparr>
          else if a = 1 then (Receiver_init i1)\<lparr>peers := [0]\<rparr>
          else if a = 2 then (Receiver_init i2)\<lparr>peers := [0]\<rparr>
          else Receiver_init i2)"
  by (rule ext) (simp add: star'_def scenario_defs)

lemma star_out:
  "stdout (star ih i1 i2) = []" "calls (star ih i1 i2) = []"
  "stdout (star' ih i1 i2) = []" "calls (star' ih i1 i2) = []"
  by (simp_all add: star_def star'_def run_def initial_def)

lemma star_nodes_heap:
  "heap (star_nodes ih i1 i2) =
     (\<lambda>a. if a = 0 then (Sender_init ih)\<lparr>peers := [1, 2]\<rparr>
          else if a = 1 then (Node_init i1 RECEIVER)\<lparr>peers := [0]\<rparr>
          else if a = 2 then (Node_init i2 RECEIVER)\<lparr>peers := [0]\<rparr>
          else Node_init i2 RECEIVER)"
  by (rule ext) (simp add: star_nodes_def scenario_defs)

lemma star_roles_heap:
  "heap (star_roles ih i1 i2) =
     (\<lambda>a. if a = 0 then (Sender_init ih)\<lparr>peers := [1, 2]\<rparr>
          else if a = 1 then (Sender_init i1)\<lparr>peers := [0], role := RECEIVER\<rparr>
          else if a = 2 then (Sender_init i2)\<lparr>peers := [0], role := RECEIVER\<rparr>
          else Sender_init i2)"
  by (rule ext) (simp add: star_roles_def scenario_defs set_role_def)

lemma star_nodes_out:
  "stdout (star_nodes ih i1 i2) = []" "calls (star_nodes ih i1 i2) = []"
  "stdout (star_roles ih i1 i2) = []" "calls (star_roles ih i1 i2) = []"
  by (simp_all add: star_nodes_def star_roles_def run_def initial_def set_role_def)

lemma star_nodes_fails:
  "fst (send_message (Suc n) (star_nodes ih i1 i2) m 0 0) = Raised AttributeError \<and>
   stdout (snd (send_message (Suc n) (star_nodes ih i1 i2) m 0 0)) = []"
  by (simp add: star_nodes_heap star_nodes_out receive_message_def
      Sender_init_def Node_init_def)

lemma star_roles_fails:
  "fst (send_message (Suc n) (star_roles ih i1 i2) m 0 0) = Raised AttributeError \<and>
   stdout (snd (send_message (Suc n) (star_roles ih i1 i2) m 0 0)) = []"
  by (simp add: star_roles_heap star_nodes_out receive_message_def
      Sender_init_def Node_init_def)

lemma triangle_heap:
  "heap (triangle ia ib ic) =
     (\<lambda>a. if a = 0 then (Sender_init ia)\<lparr>peers := [1, 2]\<rparr>
          else if a = 1 then (Sender_init ib)\<lparr>peers := [0, 2]\<rparr>
          else if a = 2 then (Sender_init ic)\<lparr>peers := [1, 0]\<rparr>
          else Sender_init ic)"
  by (rule ext) (simp add: triangle_def scenario_defs)

lemma pair_heap:
  "heap (pair ia ib ic) =
     (\<lambda>a. if a = 0 then Sender_init ia
          else if a = 1 then (Sender_init ib)\<lparr>peers := [2]\<rparr>
          else if a = 2 then (Receiver_init ic)\<lparr>peers := [1]\<rparr>
          else Receiver_init ic)"
  by (rule ext) (simp add: pair_def scenario_defs)

lemma pair_out: "stdout (pair ia ib ic) = []" "calls (pair ia ib ic) = []"
  by (simp_all add: pair_def run_def initial_def)

text \<open>In the chain, and in the triangle, every send_message call runs out of depth.\<close>

lemma chain_diverges:
  "heap st = heap (chain ia ib ic) \<Longrightarrow> x = 0 \<or> x = 1 \<Longrightarrow>
     fst (send_message n st m x s) = Raised RecursionError \<and>
     stdout (snd (send_message n st m x s)) = stdout st"
proof (induction n arbitrary: st x s)
  case 0
  then show ?case by simp
next
  case (Suc n)
  let ?st = "st\<lparr>calls := calls st @ [Invoke_send x s]\<rparr>"
  have h: "heap ?st = heap (chain ia ib ic)" using Suc.prems by simp
  from Suc.prems(2) show ?case
  proof
    assume x: "x = 0"
    from Suc.IH [OF h, of 1 0] show ?thesis
      using x Suc.prems(1)
      by (auto simp add: chain_heap Sender_init_def Node_init_def split: prod.splits status.splits)
  next
    assume x: "x = 1"
    from Suc.IH [OF h, of 0 1] show ?thesis
      using x Suc.prems(1)
      by (auto simp add: chain_heap Sender_init_def Node_init_def split: prod.splits status.splits)
  qed
qed

lemma triangle_diverges:
  "heap st = heap (triangle ia ib ic) \<Longrightarrow> x = 0 \<or> x = 1 \<or> x = 2 \<Longrightarrow>
     fst (send_message n st m x s) = Raised RecursionError \<and>
     stdout (snd (send_message n st m x s)) = stdout st"
proof (induction n arbitrary: st x s)
  case 0
  then show ?case by simp
next
  case (Suc n)
  let ?st = "st\<lparr>calls := calls st @ [Invoke_send x s]\<rparr>"
  have h: "heap ?st = heap (triangle ia ib ic)" using Suc.prems by simp
  from Suc.prems(2) consider "x = 0" | "x = 1" | "x = 2" by blast
  then show ?case
  proof cases
    case 1
    from Suc.IH [OF h, of 1 0] show ?thesis
      using 1 Suc.prems(1)
      by (auto simp add: triangle_heap Sender_init_def Node_init_def
          split: prod.splits status.splits)
  next
    case 2
    from Suc.IH [OF h, of 0 1] show ?thesis
      using 2 Suc.prems(1)
      by (auto simp add: triangle_heap Sender_init_def Node_init_def
          split: prod.splits status.splits)
  next
    case 3
    from Suc.IH [OF h, of 1 2] show ?thesis
      using 3 Suc.prems(1)
      by (auto simp add: triangle_heap Sender_init_def Node_init_def
          split: prod.splits status.splits)
  qed
qed

lemma triangle_out: "stdout (triangle ia ib ic) = []" "calls (triangle ia ib ic) = []"
  by (simp_all add: triangle_def run_def initial_def)

section \<open>The log of a traversal\<close>

lemma extends_ok_refl: "extends_ok h xs xs"
  by (simp add: extends_ok_def)

lemma extends_ok_trans: "extends_ok h xs ys \<Longrightarrow> extends_ok h ys zs \<Longrightarrow> extends_ok h xs zs"
  by (auto simp add: extends_ok_def)

lemma extends_ok_step: "forwarded_ok h e \<Longrightarrow> extends_ok h (xs @ [e]) ys \<Longrightarrow> extends_ok h xs ys"
  by (auto simp add: extends_ok_def)

lemma send_forwarded:
  "extends_ok (heap st) (if n = 0 then calls st else calls st @ [Invoke_send self s])
     (calls (snd (send_message n st m self s)))"
  "extends_ok (heap st) (calls st) (calls (snd (send_loop n st m self s ps)))"
proof (induction n st m self s and n st m self s ps rule: send_message_send_loop.induct)
  case (1 st message self sender)
  show ?case by (simp add: extends_ok_refl)
next
  case (2 n st message self sender)
  then show ?case by simp
next
  case (3 n st message self sender)
  show ?case by (simp add: extends_ok_refl)
next
  case (4 n st message self sender peer ps)
  show ?case
  proof (cases "role (heap st peer) = RECEIVER")
    case True
    show ?thesis
    proof (cases "cls (heap st peer) = Receiver_cls")
      case c: True
      define st' where "st' = snd (receive_message st message peer sender)"
      have r: "receive_message st message peer sender = (Returned, st')"
        using c by (simp add: st'_def receive_message_def)
      have h: "heap st' = heap st" by (simp add: st'_def receive_heap)
      have cs: "calls st' = calls st @ [Invoke_receive peer sender]"
        using c by (simp add: st'_def receive_message_def)
      from "4.IH"(2) [of Returned st'] True r
      have "extends_ok (heap st) (calls st @ [Invoke_receive peer sender])
          (calls (snd (send_loop n st' message self sender ps)))"
        by (simp add: h cs)
      then have "extends_ok (heap st) (calls st)
          (calls (snd (send_loop n st' message self sender ps)))"
        using True extends_ok_step [of "heap st" "Invoke_receive peer sender" "calls st"]
        by simp
      then show ?thesis using True r by simp
    next
      case False
      then show ?thesis using True by (simp add: receive_message_def extends_ok_refl)
    qed
  next
    case nr: False
    show ?thesis
    proof (cases "peer = self")
      case True
      from "4.IH"(2) [of Returned st] nr True
      show ?thesis by simp
    next
      case False
      obtain r st' where res: "send_message n st message peer self = (r, st')"
        by (cases "send_message n st message peer self")
      have h: "heap st' = heap st" using send_heap(1) [of n st message peer self] res by simp
      from "4.IH"(1) nr False res
      have "extends_ok (heap st) (if n = 0 then calls st else calls st @ [Invoke_send peer self])
          (calls st')" by simp
      then have first: "extends_ok (heap st) (calls st) (calls st')"
        using nr extends_ok_step [of "heap st" "Invoke_send peer self" "calls st" "calls st'"]
        by (simp split: if_splits)
      show ?thesis
      proof (cases r)
        case Returned
        from "4.IH"(2) [of Returned st'] nr False res Returned
        have "extends_ok (heap st) (calls st') (calls (snd (send_loop n st' message self sender ps)))"
          by (simp add: h)
        with first have "extends_ok (heap st) (calls st)
            (calls (snd (send_loop n st' message self sender ps)))"
          by (rule extends_ok_trans)
        then show ?thesis using nr False res Returned by simp
      next
        case (Raised e)
        then show ?thesis using nr False res first by simp
      qed
    qed
  qed
qed

section \<open>The chain scenario\<close>

text \<open>
  C1: in the chain A-B-C (A and B senders, C a \<open>Receiver\<close>, connected by
  \<open>A.connect(B)\<close> and then \<open>B.connect(C)\<close>) the call \<open>A.send_message("hi", A)\<close> is to
  return after printing one line, the receipt of C. The code does not do that. B's peer
  list is \<open>[A, C]\<close>; B was called by A and still forwards to A, because line 74 tests
  \<open>peer is not self\<close> where the docstring of \<open>send_message\<close> and the comment on that
  line say "except the sender"; A forwards to B again, and C is never reached. At the
  interpreter's default limit of 1000 frames, and at every other bound, the call raises
  \<open>RecursionError\<close> and has printed nothing.
\<close>

theorem chain_recursion_error:
  "peers (heap (chain 1 2 3) 0) = [1] \<and>
   peers (heap (chain 1 2 3) 1) = [0, 2] \<and>
   fst (send_message 1000 (chain 1 2 3) ''hi'' 0 0) = Raised RecursionError \<and>
   stdout (snd (send_message 1000 (chain 1 2 3) ''hi'' 0 0)) = [] \<and>
   (\<forall>n. fst (send_message n (chain 1 2 3) ''hi'' 0 0) = Raised RecursionError \<and>
        stdout (snd (send_message n (chain 1 2 3) ''hi'' 0 0)) = [])"
  using chain_diverges [of "chain 1 2 3" 1 2 3 0 _ "''hi''" 0]
  by (simp add: chain_out chain_heap)

section \<open>The sender a receiver is told\<close>

text \<open>
  C2 claims that a receiver peer of N is handed N itself as the sender. Line 72 passes
  \<open>sender\<close>, the argument N was called with: when B, whose only peer is the receiver C,
  runs \<open>send_message("hi", A)\<close>, C's \<open>receive_message\<close> is invoked with A, and the line
  printed names A's id.
\<close>

theorem pair_counterexample:
  "calls (snd (send_message 1 (pair 1 2 3) ''hi'' 1 0)) =
     [Invoke_send 1 0, Invoke_receive 2 0] \<and>
   Invoke_receive 2 1 \<notin> set (calls (snd (send_message 1 (pair 1 2 3) ''hi'' 1 0))) \<and>
   stdout (snd (send_message 1 (pair 1 2 3) ''hi'' 1 0)) =
     [''Receiver id=3 received a message from sender id=1: hi'']"
  by (simp add: pair_heap pair_out receive_message_def
      Sender_init_def Receiver_init_def Node_init_def str_int_def digits.simps char_of_def bit_0)

text \<open>
  C2 as amended: whenever a node N executes \<open>send_message(message, sender)\<close> and its
  loop reaches a peer P whose role is RECEIVER (the peers before P were handled without an
  exception; P is a \<open>Receiver\<close> object), P's \<open>receive_message\<close> is invoked next, with
  the sender argument equal to the \<open>sender\<close> value that was passed in to N, and the line it
  prints names that sender's id.
\<close>

theorem receiver_gets_passed_sender:
  assumes ps: "peers (heap st a) = ps1 @ p # ps2"
    and rl: "role (heap st p) = RECEIVER"
    and cl: "cls (heap st p) = Receiver_cls"
    and before: "send_loop n (st\<lparr>calls := calls st @ [Invoke_send a s]\<rparr>) m a s ps1 = (Returned, st1)"
  shows "prefix (calls st1 @ [Invoke_receive p s]) (calls (snd (send_message (Suc n) st m a s))) \<and>
    prefix (stdout st1 @
        [''Receiver id='' @ str_int (node_id (heap st p)) @
         '' received a message from sender id='' @ str_int (node_id (heap st s)) @ '': '' @ m])
      (stdout (snd (send_message (Suc n) st m a s)))"
proof -
  let ?st0 = "st\<lparr>calls := calls st @ [Invoke_send a s]\<rparr>"
  have h1: "heap st1 = heap st"
    using send_heap(2) [of n ?st0 m a s ps1] before by simp
  define st2 where "st2 = snd (receive_message st1 m p s)"
  have r: "receive_message st1 m p s = (Returned, st2)"
    using cl h1 by (simp add: st2_def receive_message_def)
  have c2: "calls st2 = calls st1 @ [Invoke_receive p s]"
    using cl h1 by (simp add: st2_def receive_message_def)
  have o2: "stdout st2 = stdout st1 @
      [''Receiver id='' @ str_int (node_id (heap st p)) @
       '' received a message from sender id='' @ str_int (node_id (heap st s)) @ '': '' @ m]"
    using cl h1 by (simp add: st2_def receive_message_def)
  have "send_message (Suc n) st m a s = send_loop n st1 m a s (p # ps2)"
    using ps before by (simp add: send_loop_append)
  also have "\<dots> = send_loop n st2 m a s ps2"
    using rl h1 r by simp
  finally have whole: "send_message (Suc n) st m a s = send_loop n st2 m a s ps2" .
  show ?thesis
    using send_calls(2) [of st2 n m a s ps2] send_stdout(2) [of st2 n m a s ps2]
    by (simp add: whole c2 o2 del: send_message.simps)
qed

theorem receiver_gets_passed_sender_witness:
  "peers (heap (pair 1 2 3) 1) = [] @ 2 # [] \<and>
   role (heap (pair 1 2 3) 2) = RECEIVER \<and>
   cls (heap (pair 1 2 3) 2) = Receiver_cls \<and>
   send_loop 0 ((pair 1 2 3)\<lparr>calls := calls (pair 1 2 3) @ [Invoke_send 1 0]\<rparr>) ''hi'' 1 0 []
     = (Returned, (pair 1 2 3)\<lparr>calls := calls (pair 1 2 3) @ [Invoke_send 1 0]\<rparr>) \<and>
   prefix (calls ((pair 1 2 3)\<lparr>calls := calls (pair 1 2 3) @ [Invoke_send 1 0]\<rparr>) @
       [Invoke_receive 2 0])
     (calls (snd (send_message (Suc 0) (pair 1 2 3) ''hi'' 1 0))) \<and>
   prefix (stdout ((pair 1 2 3)\<lparr>calls := calls (pair 1 2 3) @ [Invoke_send 1 0]\<rparr>) @
       [''Receiver id='' @ str_int (node_id (heap (pair 1 2 3) 2)) @
        '' received a message from sender id='' @ str_int (node_id (heap (pair 1 2 3) 0)) @
        '': '' @ ''hi''])
     (stdout (snd (send_message (Suc 0) (pair 1 2 3) ''hi'' 1 0)))"
proof -
  let ?st1 = "(pair 1 2 3)\<lparr>calls := calls (pair 1 2 3) @ [Invoke_send 1 0]\<rparr>"
  have ps: "peers (heap (pair 1 2 3) 1) = [] @ 2 # []"
    by (simp add: pair_heap)
  have rl: "role (heap (pair 1 2 3) 2) = RECEIVER"
    by (simp add: pair_heap Receiver_init_def Node_init_def)
  have cl: "cls (heap (pair 1 2 3) 2) = Receiver_cls"
    by (simp add: pair_heap Receiver_init_def Node_init_def)
  have before: "send_loop 0 ?st1 ''hi'' 1 0 [] = (Returned, ?st1)"
    by simp
  from ps rl cl before receiver_gets_passed_sender [OF ps rl cl before]
  show ?thesis by blast
qed

section \<open>The star scenario\<close>

text \<open>The lines of the star for any ids, and Python's rendering of some ids.\<close>

lemma star_delivery_any:
  "send_message (Suc n) (star ih i1 i2) ''x'' 0 0 =
     (Returned, (star ih i1 i2)
        \<lparr>stdout :=
           [''Receiver id='' @ str_int i1 @ '' received a message from sender id='' @
              str_int ih @ '': x'',
            ''Receiver id='' @ str_int i2 @ '' received a message from sender id='' @
              str_int ih @ '': x''],
         calls := [Invoke_send 0 0, Invoke_receive 1 0, Invoke_receive 2 0]\<rparr>)"
  "send_message (Suc n) (star' ih i1 i2) ''x'' 0 0 =
     (Returned, (star' ih i1 i2)
        \<lparr>stdout :=
           [''Receiver id='' @ str_int i2 @ '' received a message from sender id='' @
              str_int ih @ '': x'',
            ''Receiver id='' @ str_int i1 @ '' received a message from sender id='' @
              str_int ih @ '': x''],
         calls := [Invoke_send 0 0, Invoke_receive 2 0, Invoke_receive 1 0]\<rparr>)"
  by (simp_all add: star_heap star'_heap star_out receive_message_def
      Sender_init_def Receiver_init_def Node_init_def)

lemma str_int_literals:
  "str_int 1 = ''1''" "str_int 2 = ''2''" "str_int 3 = ''3''" "str_int 0 = ''0''"
  "str_int 10 = ''10''" "str_int 205 = ''205''" "str_int (- 7) = ''-7''"
  by (simp_all add: str_int_def digits.simps char_of_def bit_0)

text \<open>
  C3 claims the two receipt lines for a hub connected to two nodes of role RECEIVER. The
  role is not enough: line 72 calls \<open>peer.receive_message\<close>, which only the class
  \<open>Receiver\<close> defines. When R1 and R2 are \<open>Node(i, Roles.RECEIVER)\<close> objects, or senders
  whose role was set to RECEIVER, \<open>H.send_message("x", H)\<close> raises \<open>AttributeError\<close> at
  the first peer and prints nothing.
\<close>

theorem star_nodes_counterexample:
  "role (heap (star_nodes 1 2 3) 1) = RECEIVER \<and>
   role (heap (star_nodes 1 2 3) 2) = RECEIVER \<and>
   fst (send_message 1000 (star_nodes 1 2 3) ''x'' 0 0) = Raised AttributeError \<and>
   stdout (snd (send_message 1000 (star_nodes 1 2 3) ''x'' 0 0)) = [] \<and>
   (\<forall>n. stdout (snd (send_message n (star_nodes 1 2 3) ''x'' 0 0)) = []) \<and>
   role (heap (star_roles 1 2 3) 1) = RECEIVER \<and>
   role (heap (star_roles 1 2 3) 2) = RECEIVER \<and>
   fst (send_message 1000 (star_roles 1 2 3) ''x'' 0 0) = Raised AttributeError \<and>
   stdout (snd (send_message 1000 (star_roles 1 2 3) ''x'' 0 0)) = []"
proof -
  have always: "stdout (snd (send_message n (star_nodes 1 2 3) ''x'' 0 0)) = []" for n
    using star_nodes_fails [of _ 1 2 3 "''x''"] by (cases n) (simp_all add: star_nodes_out)
  have roles: "role (heap (star_nodes 1 2 3) 1) = RECEIVER"
    "role (heap (star_nodes 1 2 3) 2) = RECEIVER"
    "role (heap (star_roles 1 2 3) 1) = RECEIVER"
    "role (heap (star_roles 1 2 3) 2) = RECEIVER"
    by (simp_all add: star_nodes_heap star_roles_heap Node_init_def Sender_init_def)
  from always roles star_nodes_fails [of 999 1 2 3 "''x''"] star_roles_fails [of 999 1 2 3 "''x''"]
  show ?thesis by simp
qed

text \<open>
  C3 as amended: in the star with hub H (role SENDER) connected to R1 and R2, both
  \<open>Receiver\<close> objects (made by the constructor \<open>Receiver\<close>, so of role RECEIVER),
  \<open>H.send_message("x", H)\<close> returns, at every depth bound of at least one frame, and
  prints exactly two lines, one for each receiver, each of the form
  \<open>Receiver id=<receiver_id> received a message from sender id=<sender_id>: <message>\<close>
  with H's id as the sender id; the lines come in the order of H's peer list, whichever of
  R1 and R2 was connected first. The statement gives the lines for all ids, and then
  letter by letter for the ids 1, 2, 3 and for ids of several digits, zero and a negative
  one.
\<close>

theorem star_delivery:
  "send_message (Suc n) (star ih i1 i2) ''x'' 0 0 =
     (Returned, (star ih i1 i2)
        \<lparr>stdout :=
           [''Receiver id='' @ str_int i1 @ '' received a message from sender id='' @
              str_int ih @ '': x'',
            ''Receiver id='' @ str_int i2 @ '' received a message from sender id='' @
              str_int ih @ '': x''],
         calls := [Invoke_send 0 0, Invoke_receive 1 0, Invoke_receive 2 0]\<rparr>) \<and>
   send_message (Suc n) (star' ih i1 i2) ''x'' 0 0 =
     (Returned, (star' ih i1 i2)
        \<lparr>stdout :=
           [''Receiver id='' @ str_int i2 @ '' received a message from sender id='' @
              str_int ih @ '': x'',
            ''Receiver id='' @ str_int i1 @ '' received a message from sender id='' @
              str_int ih @ '': x''],
         calls := [Invoke_send 0 0, Invoke_receive 2 0, Invoke_receive 1 0]\<rparr>) \<and>
   cls (heap (star ih i1 i2) 1) = Receiver_cls \<and> cls (heap (star ih i1 i2) 2) = Receiver_cls \<and>
   cls (heap (star' ih i1 i2) 1) = Receiver_cls \<and> cls (heap (star' ih i1 i2) 2) = Receiver_cls \<and>
   stdout (snd (send_message (Suc n) (star 1 2 3) ''x'' 0 0)) =
     [''Receiver id=2 received a message from sender id=1: x'',
      ''Receiver id=3 received a message from sender id=1: x''] \<and>
   stdout (snd (send_message (Suc n) (star' 1 2 3) ''x'' 0 0)) =
     [''Receiver id=3 received a message from sender id=1: x'',
      ''Receiver id=2 received a message from sender id=1: x''] \<and>
   stdout (snd (send_message (Suc n) (star 10 205 (- 7)) ''x'' 0 0)) =
     [''Receiver id=205 received a message from sender id=10: x'',
      ''Receiver id=-7 received a message from sender id=10: x''] \<and>
   stdout (snd (send_message (Suc n) (star' 0 205 (- 7)) ''x'' 0 0)) =
     [''Receiver id=-7 received a message from sender id=0: x'',
      ''Receiver id=205 received a message from sender id=0: x'']"
proof -
  have classes:
    "cls (heap (star ih i1 i2) 1) = Receiver_cls" "cls (heap (star ih i1 i2) 2) = Receiver_cls"
    "cls (heap (star' ih i1 i2) 1) = Receiver_cls" "cls (heap (star' ih i1 i2) 2) = Receiver_cls"
    by (simp_all add: star_heap star'_heap Receiver_init_def Node_init_def)
  have l1: "stdout (snd (send_message (Suc n) (star 1 2 3) ''x'' 0 0)) =
     [''Receiver id=2 received a message from sender id=1: x'',
      ''Receiver id=3 received a message from sender id=1: x'']"
    by (simp only: star_delivery_any) (simp add: str_int_literals)
  have l2: "stdout (snd (send_message (Suc n) (star' 1 2 3) ''x'' 0 0)) =
     [''Receiver id=3 received a message from sender id=1: x'',
      ''Receiver id=2 received a message from sender id=1: x'']"
    by (simp only: star_delivery_any) (simp add: str_int_literals)
  have l3: "stdout (snd (send_message (Suc n) (star 10 205 (- 7)) ''x'' 0 0)) =
     [''Receiver id=205 received a message from sender id=10: x'',
      ''Receiver id=-7 received a message from sender id=10: x'']"
    by (simp only: star_delivery_any) (simp add: str_int_literals)
  have l4: "stdout (snd (send_message (Suc n) (star' 0 205 (- 7)) ''x'' 0 0)) =
     [''Receiver id=-7 received a message from sender id=0: x'',
      ''Receiver id=205 received a message from sender id=0: x'']"
    by (simp only: star_delivery_any) (simp add: str_int_literals)
  from classes l1 l2 l3 l4 star_delivery_any [of n ih i1 i2] show ?thesis
    by (simp only: simp_thms)
qed

section \<open>The triangle scenario\<close>

text \<open>
  C4: in the triangle of three senders, \<open>send_message\<close> invoked on any of the three
  nodes, with any message and any sender argument, exceeds every bound on the recursion
  depth: for every bound the call ends in \<open>RecursionError\<close>, having printed nothing.
\<close>

theorem triangle_recursion_unbounded:
  "fst (send_message n (triangle ia ib ic) m 0 s) = Raised RecursionError \<and>
   fst (send_message n (triangle ia ib ic) m 1 s) = Raised RecursionError \<and>
   fst (send_message n (triangle ia ib ic) m 2 s) = Raised RecursionError \<and>
   stdout (snd (send_message n (triangle ia ib ic) m 0 s)) = [] \<and>
   stdout (snd (send_message n (triangle ia ib ic) m 1 s)) = [] \<and>
   stdout (snd (send_message n (triangle ia ib ic) m 2 s)) = []"
  by (simp add: triangle_diverges triangle_out)

section \<open>Roles\<close>

text \<open>
  C5: \<open>set_role(new_role)\<close> raises if and only if the node's current role is
  WORD_GENERATOR; when it raises, the state is unchanged, whatever the target role; when
  the current role is another one it returns and the role field is \<open>new_role\<close>
  afterwards.
\<close>

theorem set_role_word_generator:
  "(fst (set_role st a r) \<noteq> Returned \<longleftrightarrow> role (heap st a) = WORD_GENERATOR) \<and>
   (role (heap st a) = WORD_GENERATOR \<longrightarrow> set_role st a r = (Raised ValueError, st)) \<and>
   (role (heap st a) \<noteq> WORD_GENERATOR \<longrightarrow>
      fst (set_role st a r) = Returned \<and> role (heap (snd (set_role st a r)) a) = r)"
  by (simp add: set_role_def)

text \<open>A word generator at address 0 and a sender at address 1.\<close>

theorem set_role_word_generator_witness:
  "role (heap (initial (three (New_WordGenerator 1) (New_Sender 2) (New_Receiver 3))) 0)
     = WORD_GENERATOR \<and>
   set_role (initial (three (New_WordGenerator 1) (New_Sender 2) (New_Receiver 3))) 0 SENDER
     = (Raised ValueError, initial (three (New_WordGenerator 1) (New_Sender 2) (New_Receiver 3))) \<and>
   role (heap (initial (three (New_WordGenerator 1) (New_Sender 2) (New_Receiver 3))) 1)
     \<noteq> WORD_GENERATOR \<and>
   fst (set_role (initial (three (New_WordGenerator 1) (New_Sender 2) (New_Receiver 3))) 1
     ENCRYPTER) = Returned \<and>
   role (heap (snd (set_role (initial (three (New_WordGenerator 1) (New_Sender 2)
     (New_Receiver 3))) 1 ENCRYPTER)) 1) = ENCRYPTER"
proof -
  let ?st = "initial (three (New_WordGenerator 1) (New_Sender 2) (New_Receiver 3))"
  have wg: "role (heap ?st 0) = WORD_GENERATOR"
    by (simp add: initial_def three_def WordGenerator_init_def Node_init_def)
  have sn: "role (heap ?st 1) \<noteq> WORD_GENERATOR"
    by (simp add: initial_def three_def Sender_init_def Node_init_def)
  from wg sn set_role_word_generator [of ?st 0 SENDER]
    set_role_word_generator [of ?st 1 ENCRYPTER]
  show ?thesis by blast
qed

text \<open>
  C10: WORD_GENERATOR is absorbing. On a node whose role is another one,
  \<open>set_role(WORD_GENERATOR)\<close> returns (whatever class the node was constructed with), and
  after any sequence of further method calls, on any objects, the node's role is still
  WORD_GENERATOR and a \<open>set_role\<close> on it raises and changes nothing.
\<close>

theorem word_generator_absorbing:
  "role (heap st a) \<noteq> WORD_GENERATOR \<Longrightarrow>
     fst (set_role st a WORD_GENERATOR) = Returned \<and>
     role (heap (run cs (snd (set_role st a WORD_GENERATOR))) a) = WORD_GENERATOR \<and>
     set_role (run cs (snd (set_role st a WORD_GENERATOR))) a r =
       (Raised ValueError, run cs (snd (set_role st a WORD_GENERATOR)))"
proof -
  assume n: "role (heap st a) \<noteq> WORD_GENERATOR"
  let ?st = "snd (set_role st a WORD_GENERATOR)"
  from n have ok: "fst (set_role st a WORD_GENERATOR) = Returned"
    and wg: "role (heap ?st a) = WORD_GENERATOR"
    by (simp_all add: set_role_def)
  from wg have later: "role (heap (run cs ?st) a) = WORD_GENERATOR"
    by (rule run_word_generator)
  then have "set_role (run cs ?st) a r = (Raised ValueError, run cs ?st)"
    by (simp add: set_role_def)
  with ok later show ?thesis by simp
qed

text \<open>
  The sender B of the pair scenario is made a word generator; then it is asked to become a
  sender again, connected, made to send, and asked for a word.
\<close>

theorem word_generator_absorbing_witness:
  "role (heap (pair 1 2 3) 1) \<noteq> WORD_GENERATOR \<and>
   fst (set_role (pair 1 2 3) 1 WORD_GENERATOR) = Returned \<and>
   role (heap (run [Set_role 1 SENDER, Connect 1 0, Send_message 5 ''hi'' 1 1, Generate_word 1]
     (snd (set_role (pair 1 2 3) 1 WORD_GENERATOR))) 1) = WORD_GENERATOR \<and>
   set_role (run [Set_role 1 SENDER, Connect 1 0, Send_message 5 ''hi'' 1 1, Generate_word 1]
     (snd (set_role (pair 1 2 3) 1 WORD_GENERATOR))) 1 RECEIVER =
     (Raised ValueError,
      run [Set_role 1 SENDER, Connect 1 0, Send_message 5 ''hi'' 1 1, Generate_word 1]
        (snd (set_role (pair 1 2 3) 1 WORD_GENERATOR)))"
proof -
  have n: "role (heap (pair 1 2 3) 1) \<noteq> WORD_GENERATOR"
    by (simp add: pair_heap Sender_init_def Node_init_def)
  from n word_generator_absorbing [OF n] show ?thesis by blast
qed

section \<open>Connections\<close>

text \<open>
  C6: in every state a client can reach (objects built by the constructors, then any
  method calls), after \<open>A.connect(B)\<close> B is in A's peer list and A is in B's peer list.
  A and B need not even be distinct.
\<close>

theorem connect_makes_symmetric:
  "b \<in> set (peers (connect (heap (run cs (initial objs))) a b a)) \<and>
   a \<in> set (peers (connect (heap (run cs (initial objs))) a b b))"
proof -
  let ?h = "heap (run cs (initial objs))"
  have "symmetric ?h" by (rule reachable_invariants)
  then have "b \<in> set (peers (?h a)) \<Longrightarrow> a \<in> set (peers (?h b))"
    by (simp add: symmetric_def)
  then have "a \<in> set (peers (connect ?h a b b))" by (rule connect_adds_back)
  then show ?thesis by (simp add: connect_adds)
qed

text \<open>
  C7: connect is idempotent. In every state a client can reach, a second \<open>A.connect(B)\<close>,
  or a \<open>B.connect(A)\<close>, after \<open>A.connect(B)\<close> changes nothing, and each of the two peer
  lists holds the other node exactly once. Membership is by identity: a node C other than
  B is added to A's list besides B, whatever the ids of B and C are, equal ids included.
\<close>

theorem connect_idempotent:
  "let h = heap (run cs (initial objs)) in
     connect (connect h a b) a b = connect h a b \<and>
     connect (connect h a b) b a = connect h a b \<and>
     count_list (peers (connect (connect h a b) a b a)) b = 1 \<and>
     count_list (peers (connect (connect h a b) a b b)) a = 1 \<and>
     count_list (peers (connect (connect h a b) b a a)) b = 1 \<and>
     count_list (peers (connect (connect h a b) b a b)) a = 1 \<and>
     (b \<noteq> c \<longrightarrow>
        count_list (peers (connect (connect h a b) a c a)) b = 1 \<and>
        count_list (peers (connect (connect h a b) a c a)) c = 1)"
proof -
  define h where "h = heap (run cs (initial objs))"
  define h' where "h' = connect h a b"
  have sym: "symmetric h" and nd: "no_duplicates h"
    unfolding h_def by (rule reachable_invariants)+
  have nd': "no_duplicates h'" unfolding h'_def using nd by (rule connect_no_duplicates)
  have ba: "b \<in> set (peers (h' a))" unfolding h'_def by (rule connect_adds)
  have "b \<in> set (peers (h a)) \<Longrightarrow> a \<in> set (peers (h b))"
    using sym by (simp add: symmetric_def)
  then have ab: "a \<in> set (peers (h' b))" unfolding h'_def by (rule connect_adds_back)
  have again: "connect h' a b = h'" using ba by (rule connect_noop)
  have other: "connect h' b a = h'" using ab by (rule connect_noop)
  have one_b: "count_list (peers (h' a)) b = 1"
    using nd' ba by (simp add: no_duplicates_def count_one)
  have one_a: "count_list (peers (h' b)) a = 1"
    using nd' ab by (simp add: no_duplicates_def count_one)
  have nd'': "distinct (peers (connect h' a c a))"
    using connect_no_duplicates [OF nd', of a c] by (simp add: no_duplicates_def)
  have "b \<in> set (peers (connect h' a c a))" using ba by (rule connect_keeps)
  with nd'' have both_b: "count_list (peers (connect h' a c a)) b = 1" by (simp add: count_one)
  have "c \<in> set (peers (connect h' a c a))" by (rule connect_adds)
  with nd'' have both_c: "count_list (peers (connect h' a c a)) c = 1" by (simp add: count_one)
  from again other one_a one_b both_b both_c show ?thesis
    by (simp add: Let_def h_def [symmetric] h'_def [symmetric])
qed

text \<open>Every object is a sender with id 7; A, B and C are the objects at 0, 1 and 2.\<close>

theorem connect_idempotent_witness:
  "(1::nat) \<noteq> 2 \<and>
   node_id (heap (initial (\<lambda>x. New_Sender 7)) 1) = node_id (heap (initial (\<lambda>x. New_Sender 7)) 2) \<and>
   count_list (peers (connect (connect (heap (initial (\<lambda>x. New_Sender 7))) 0 1) 0 2 0)) 1 = 1 \<and>
   count_list (peers (connect (connect (heap (initial (\<lambda>x. New_Sender 7))) 0 1) 0 2 0)) 2 = 1 \<and>
   peers (connect (connect (heap (initial (\<lambda>x. New_Sender 7))) 0 1) 0 2 0) = [1, 2]"
proof -
  have ne: "(1::nat) \<noteq> 2" by simp
  have ids: "node_id (heap (initial (\<lambda>x. New_Sender 7)) 1) =
      node_id (heap (initial (\<lambda>x. New_Sender 7)) 2)"
    by (simp add: initial_def)
  have ps: "peers (connect (connect (heap (initial (\<lambda>x. New_Sender 7))) 0 1) 0 2 0) = [1, 2]"
    by (simp add: initial_def connect_unfold Let_def Sender_init_def Node_init_def)
  from connect_idempotent [of "[]" "\<lambda>x. New_Sender 7" 0 1 2] ne
  have "count_list (peers (connect (connect (heap (initial (\<lambda>x. New_Sender 7))) 0 1) 0 2 0)) 1 = 1 \<and>
    count_list (peers (connect (connect (heap (initial (\<lambda>x. New_Sender 7))) 0 1) 0 2 0)) 2 = 1"
    by (simp add: Let_def run_def)
  with ne ids ps show ?thesis by blast
qed

section \<open>What a traversal does and does not do\<close>

text \<open>
  C8: a receiver is terminal. In the log of a traversal, after the entry of the call that
  started it, every \<open>send_message\<close> is on a node whose role is not RECEIVER and every
  \<open>receive_message\<close> is on a node whose role is RECEIVER; and \<open>receive_message\<close> adds
  its own entry to the log and no other, so nothing is forwarded from a receiver.
\<close>

theorem receiver_is_terminal:
  "(\<exists>evs. calls (snd (send_message (Suc n) st m a s)) = calls st @ Invoke_send a s # evs \<and>
      list_all (forwarded_ok (heap st)) evs) \<and>
   calls (snd (receive_message st m a s)) =
     (if cls (heap st a) = Receiver_cls then calls st @ [Invoke_receive a s] else calls st)"
  using send_forwarded(1) [of st "Suc n" a s m]
  by (simp add: extends_ok_def receive_message_def)

text \<open>
  C9: \<open>send_message\<close>, with the \<open>receive_message\<close> calls it makes, changes no node: the
  store after the call is the store before it, whether the call returns or raises, and the
  lines printed before the call are still there, followed by the lines the call printed.
\<close>

theorem send_message_frame:
  "heap (snd (send_message n st m a s)) = heap st \<and>
   heap (snd (receive_message st m a s)) = heap st \<and>
   prefix (stdout st) (stdout (snd (send_message n st m a s)))"
  by (simp add: send_heap receive_heap send_stdout)

end
